theory Spec2Isabelle
  imports Main "HOL-Library.Char_ord" "HOL-Library.List_Lexorder" "HOL-Library.AList"
begin

section \<open>Python values, errors and dictionaries\<close>

text \<open>
  The views of \<^verbatim>\<open>tastypie_swagger/views.py\<close> handle dynamically typed Python values.
  \<open>pyval\<close> is the part of that universe the views can meet: the JSON-native values, a lazy
  string (an instance of Django's \<^verbatim>\<open>Promise\<close>, carrying the text \<^verbatim>\<open>force_text\<close> resolves it
  to), a Tastypie \<^verbatim>\<open>Api\<close> instance (carrying its \<^verbatim>\<open>_registry\<close> dictionary) and any other
  object (opaque, named by a label: a view instance, a resource). Floats are left out.
  A dictionary is an association list in insertion order; a Python dictionary holds every
  key once, which is \<open>distinct (map fst d)\<close>. Strings are byte strings, compared
  lexicographically by character code as Python compares them.
\<close>

datatype pyval =
    PNone
  | PBool bool
  | PInt int
  | PStr string
  | PList "pyval list"
  | PDict "(string \<times> pyval) list"
  | PPromise string
  | PApi "(string \<times> pyval) list"
  | PObject string

type_synonym dict = "(string \<times> pyval) list"

text \<open>The keyword arguments the URL resolver hands to a view: strings by name.\<close>

type_synonym url_kwargs = "(string \<times> string) list"

text \<open>\<^verbatim>\<open>sys.modules\<close>: the loaded modules by dotted name, each with its attributes.\<close>

type_synonym modules = "(string \<times> dict) list"

datatype error =
    ImproperlyConfigured string
  | Http404
  | ValueError
  | TypeError
  | AttributeError

text \<open>
  Python's truth value: \<^verbatim>\<open>None\<close>, \<^verbatim>\<open>False\<close>, zero and empty containers are false. A lazy
  string has the length of its text. An \<^verbatim>\<open>Api\<close> instance and any other object define
  neither \<^verbatim>\<open>__bool__\<close> nor \<^verbatim>\<open>__len__\<close> and are true.
\<close>

fun truthy :: "pyval \<Rightarrow> bool" where
  "truthy PNone = False"
| "truthy (PBool b) = b"
| "truthy (PInt i) = (i \<noteq> 0)"
| "truthy (PStr s) = (s \<noteq> [])"
| "truthy (PList xs) = (xs \<noteq> [])"
| "truthy (PDict d) = (d \<noteq> [])"
| "truthy (PPromise s) = (s \<noteq> [])"
| "truthy (PApi r) = True"
| "truthy (PObject n) = True"

definition dict_get :: "('k \<times> 'v) list \<Rightarrow> 'k \<Rightarrow> 'v option" where
  \<comment> \<open>\<^verbatim>\<open>d.get(k, None)\<close>, with \<open>None\<close> for Python's \<^verbatim>\<open>None\<close> default\<close>
  "dict_get d k = map_of d k"

definition dict_contains :: "('k \<times> 'v) list \<Rightarrow> 'k \<Rightarrow> bool" where
  \<comment> \<open>\<^verbatim>\<open>k in d\<close>\<close>
  "dict_contains d k = (k \<in> set (map fst d))"

definition dict_keys :: "('k \<times> 'v) list \<Rightarrow> 'k list" where
  \<comment> \<open>\<^verbatim>\<open>d.keys()\<close>\<close>
  "dict_keys d = map fst d"

definition dict_del :: "('k \<times> 'v) list \<Rightarrow> 'k \<Rightarrow> ('k \<times> 'v) list" where
  \<comment> \<open>\<^verbatim>\<open>del d[k]\<close>, called only where \<^verbatim>\<open>k in d\<close> has been checked\<close>
  "dict_del d k = AList.delete k d"

definition dict_update :: "('k \<times> 'v) list \<Rightarrow> ('k \<times> 'v) list \<Rightarrow> ('k \<times> 'v) list" where
  \<comment> \<open>\<^verbatim>\<open>d.update(e)\<close>: every item of \<open>e\<close> is stored into \<open>d\<close>, in order\<close>
  "dict_update d e = fold (\<lambda>(k, v) acc. AList.update k v acc) e d"

definition getattr :: "dict \<Rightarrow> string \<Rightarrow> pyval \<Rightarrow> pyval" where
  \<comment> \<open>\<^verbatim>\<open>getattr(obj, name, default)\<close> on an object given by its attributes\<close>
  "getattr attrs name dflt = (case map_of attrs name of Some v \<Rightarrow> v | None \<Rightarrow> dflt)"

subsection \<open>String methods\<close>

definition py_strip :: "char \<Rightarrow> string \<Rightarrow> string" where
  \<comment> \<open>\<^verbatim>\<open>s.strip(c)\<close>: every leading and every trailing \<open>c\<close> is removed\<close>
  "py_strip c s = rev (dropWhile (\<lambda>x. x = c) (rev (dropWhile (\<lambda>x. x = c) s)))"

definition py_rsplit1 :: "char \<Rightarrow> string \<Rightarrow> string list" where
  \<comment> \<open>\<^verbatim>\<open>s.rsplit(c, 1)\<close>: split once, at the last \<open>c\<close>; without one, the string alone\<close>
  "py_rsplit1 c s =
     (if c \<in> set s
      then [rev (tl (dropWhile (\<lambda>x. x \<noteq> c) (rev s))), rev (takeWhile (\<lambda>x. x \<noteq> c) (rev s))]
      else [s])"

section \<open>LazyEncoder and the JSON document\<close>

text \<open>
  \<^verbatim>\<open>json.dumps(context, cls=LazyEncoder)\<close> walks the value. The document it writes is kept
  as a tree; the characters the \<^verbatim>\<open>json\<close> library writes for a tree are the library's.
  A value of no JSON type goes to the encoder's \<^verbatim>\<open>default\<close> hook, and what the hook returns
  is encoded in its place. \<^verbatim>\<open>LazyEncoder.default\<close> returns the text of a \<^verbatim>\<open>Promise\<close> and
  leaves every other object to \<^verbatim>\<open>JSONEncoder.default\<close>, which raises \<^verbatim>\<open>TypeError\<close>.
\<close>

datatype json =
    JNull
  | JBool bool
  | JNumber int
  | JString string
  | JArray "json list"
  | JObject "(string \<times> json) list"

definition force_text :: "string \<Rightarrow> string" where
  \<comment> \<open>the text a lazy string resolves to is what \<open>PPromise\<close> carries\<close>
  "force_text s = s"

fun LazyEncoder_default :: "pyval \<Rightarrow> error + string" where
  "LazyEncoder_default (PPromise s) = Inr (force_text s)"
| "LazyEncoder_default obj = Inl TypeError"

fun json_encode :: "pyval \<Rightarrow> error + json"
  and json_encode_list :: "pyval list \<Rightarrow> error + json list"
  and json_encode_items :: "(string \<times> pyval) list \<Rightarrow> error + (string \<times> json) list"
where
  "json_encode PNone = Inr JNull"
| "json_encode (PBool b) = Inr (JBool b)"
| "json_encode (PInt i) = Inr (JNumber i)"
| "json_encode (PStr s) = Inr (JString s)"
| "json_encode (PList xs) =
     (case json_encode_list xs of Inl e \<Rightarrow> Inl e | Inr js \<Rightarrow> Inr (JArray js))"
| "json_encode (PDict d) =
     (case json_encode_items d of Inl e \<Rightarrow> Inl e | Inr js \<Rightarrow> Inr (JObject js))"
| "json_encode (PPromise s) =
     (case LazyEncoder_default (PPromise s) of Inl e \<Rightarrow> Inl e | Inr t \<Rightarrow> Inr (JString t))"
| "json_encode (PApi r) =
     (case LazyEncoder_default (PApi r) of Inl e \<Rightarrow> Inl e | Inr t \<Rightarrow> Inr (JString t))"
| "json_encode (PObject n) =
     (case LazyEncoder_default (PObject n) of Inl e \<Rightarrow> Inl e | Inr t \<Rightarrow> Inr (JString t))"
| "json_encode_list [] = Inr []"
| "json_encode_list (x # xs) =
     (case json_encode x of Inl e \<Rightarrow> Inl e
      | Inr j \<Rightarrow> (case json_encode_list xs of Inl e \<Rightarrow> Inl e | Inr js \<Rightarrow> Inr (j # js)))"
| "json_encode_items [] = Inr []"
| "json_encode_items ((k, v) # d) =
     (case json_encode v of Inl e \<Rightarrow> Inl e
      | Inr j \<Rightarrow> (case json_encode_items d of Inl e \<Rightarrow> Inl e | Inr js \<Rightarrow> Inr ((k, j) # js)))"

definition json_dumps :: "dict \<Rightarrow> error + json" where
  \<comment> \<open>\<^verbatim>\<open>json.dumps(context, cls=LazyEncoder)\<close> on a context dictionary\<close>
  "json_dumps context = json_encode (PDict context)"

section \<open>TastypieApiMixin\<close>

text \<open>
  A view instance, as far as the mixins read and write it: \<^verbatim>\<open>self.kwargs\<close> and the instance
  attribute \<^verbatim>\<open>_tastypie_api\<close>, which is absent until the accessor assigns it. The class
  attribute of the same name is \<^verbatim>\<open>None\<close> and is what an instance without the attribute reads.
\<close>

record view =
  kwargs :: url_kwargs
  inst_tastypie_api :: "pyval option"

definition class_tastypie_api :: pyval where
  "class_tastypie_api = PNone"

definition get_tastypie_api_attr :: "view \<Rightarrow> pyval" where
  \<comment> \<open>reading \<^verbatim>\<open>self._tastypie_api\<close>\<close>
  "get_tastypie_api_attr self =
     (case inst_tastypie_api self of Some v \<Rightarrow> v | None \<Rightarrow> class_tastypie_api)"

definition must_be_defined :: string where
  "must_be_defined =
     ''tastypie_api_module must be defined''
     @ ''as an extra parameters in urls.py with its value being''
     @ ''a path to a tastypie.api.Api instance.''"

text \<open>
  The property \<^verbatim>\<open>tastypie_api\<close>. It returns the value and the view as the access leaves it.
  Unpacking \<^verbatim>\<open>path, attr = ...rsplit('.', 1)\<close> raises \<^verbatim>\<open>ValueError\<close> unless the list has two
  elements; the \<^verbatim>\<open>KeyError\<close> of \<^verbatim>\<open>sys.modules[path]\<close> is caught and raised again as
  \<^verbatim>\<open>ImproperlyConfigured\<close>.
\<close>

definition tastypie_api :: "modules \<Rightarrow> view \<Rightarrow> error + (pyval \<times> view)" where
  "tastypie_api sys_modules self =
     (if \<not> truthy (get_tastypie_api_attr self) then
        (case dict_get (kwargs self) ''tastypie_api_module'' of
           None \<Rightarrow> Inl (ImproperlyConfigured must_be_defined)
         | Some tastypie_api_module \<Rightarrow>
             if tastypie_api_module = [] then Inl (ImproperlyConfigured must_be_defined)
             else
               (case py_rsplit1 CHR ''.'' tastypie_api_module of
                  [path, attr] \<Rightarrow>
                    (case map_of sys_modules path of
                       None \<Rightarrow>
                         Inl (ImproperlyConfigured (path @ '' is not a valid python path''))
                     | Some md \<Rightarrow>
                         let api = getattr md attr PNone in
                         if \<not> truthy api
                         then Inl (ImproperlyConfigured
                                (tastypie_api_module
                                 @ '' is not a valid tastypie.api.Api instance''))
                         else Inr (api, self\<lparr>inst_tastypie_api := Some api\<rparr>))
                | _ \<Rightarrow> Inl ValueError))
      else Inr (get_tastypie_api_attr self, self))"

text \<open>
  The view instances of a process, by object identity. An access through the instance at
  \<open>a\<close> writes that instance; the class attribute is never assigned.
\<close>

type_synonym heap = "nat \<Rightarrow> view option"

definition tastypie_api_at :: "modules \<Rightarrow> heap \<Rightarrow> nat \<Rightarrow> (error + (pyval \<times> heap)) option" where
  \<comment> \<open>\<open>None\<close> when no instance lives at \<open>a\<close>\<close>
  "tastypie_api_at sys_modules h a =
     (case h a of
        None \<Rightarrow> None
      | Some self \<Rightarrow>
          Some (case tastypie_api sys_modules self of
                  Inl e \<Rightarrow> Inl e
                | Inr (api, self') \<Rightarrow> Inr (api, h(a := Some self'))))"

definition registry_of :: "pyval \<Rightarrow> error + dict" where
  \<comment> \<open>reading \<^verbatim>\<open>api._registry\<close>: only an \<^verbatim>\<open>Api\<close> instance has the attribute\<close>
  "registry_of api = (case api of PApi r \<Rightarrow> Inr r | _ \<Rightarrow> Inl AttributeError)"

section \<open>SwaggerApiDataMixin and JSONView\<close>

text \<open>
  \<^verbatim>\<open>super(...).get_context_data\<close> ends in Django's own \<^verbatim>\<open>get_context_data\<close>, which builds a
  context dictionary from the keyword arguments. It is the parameter \<open>base\<close>.
\<close>

definition SwaggerApiDataMixin_get_context_data :: "(url_kwargs \<Rightarrow> dict) \<Rightarrow> url_kwargs \<Rightarrow> dict" where
  "SwaggerApiDataMixin_get_context_data base kw =
     dict_update (base kw)
       [(''apiVersion'', PStr ''0.1''), (''swaggerVersion'', PStr ''1.1'')]"

text \<open>
  The response: the arguments \<^verbatim>\<open>render_to_response\<close> gives to \<^verbatim>\<open>HttpResponse\<close>. A keyword
  given twice is a \<^verbatim>\<open>TypeError\<close> of the call, so \<^verbatim>\<open>response_kwargs\<close> must not hold
  \<^verbatim>\<open>content_type\<close>.
\<close>

record response =
  content :: json
  content_type :: string
  response_kwargs :: dict

definition strip_internal_keys :: "dict \<Rightarrow> dict" where
  \<comment> \<open>the loop over \<^verbatim>\<open>['params', 'view']\<close> and the second test of \<^verbatim>\<open>'view'\<close>\<close>
  "strip_internal_keys context =
     (let context = fold (\<lambda>k c. if dict_contains c k then dict_del c k else c)
                      [''params'', ''view''] context
      in if dict_contains context ''view'' then dict_del context ''view'' else context)"

definition render_to_response :: "dict \<Rightarrow> dict \<Rightarrow> error + response" where
  "render_to_response context kws =
     (let context = strip_internal_keys context in
      case json_dumps context of
        Inl e \<Rightarrow> Inl e
      | Inr body \<Rightarrow>
          if dict_contains kws ''content_type'' then Inl TypeError
          else Inr \<lparr>content = body, content_type = ''application/json'',
                    response_kwargs = kws\<rparr>)"

section \<open>ResourcesView and SchemaView\<close>

text \<open>
  What the views ask of the request: the absolute URI of the route \<^verbatim>\<open>schema\<close> of the
  view's namespace (\<^verbatim>\<open>build_absolute_uri(reverse(...))\<close>) and of the site root
  (\<^verbatim>\<open>build_absolute_uri('/')\<close>). Both are Django's results.
\<close>

record request =
  schema_absolute_uri :: string
  root_absolute_uri :: string

definition ResourcesView_get_context_data ::
  "(url_kwargs \<Rightarrow> dict) \<Rightarrow> modules \<Rightarrow> request \<Rightarrow> view \<Rightarrow> url_kwargs \<Rightarrow> error + (dict \<times> view)" where
  "ResourcesView_get_context_data base sys_modules req self kw =
     (let context = SwaggerApiDataMixin_get_context_data base kw in
      case tastypie_api sys_modules self of
        Inl e \<Rightarrow> Inl e
      | Inr (api, self') \<Rightarrow>
          (case registry_of api of
             Inl e \<Rightarrow> Inl e
           | Inr registry \<Rightarrow>
               let apis = map (\<lambda>name. PDict [(''path'', PStr (''/'' @ name))])
                            (sort (dict_keys registry));
                   url = schema_absolute_uri req
               in Inr (dict_update context
                         [(''basePath'', PStr (py_strip CHR ''/'' url)),
                          (''apis'', PList apis)],
                       self')))"

text \<open>
  \<^verbatim>\<open>ResourceSwaggerMapping\<close> lives in \<^verbatim>\<open>mapping.py\<close>; its two methods are the parameters
  \<open>build_apis\<close> and \<open>build_models\<close>, functions of the resource the mapping was built on.
  \<^verbatim>\<open>self.tastypie_api\<close> is read twice, as the source does.
\<close>

definition SchemaView_get_context_data ::
  "(pyval \<Rightarrow> error + pyval) \<Rightarrow> (pyval \<Rightarrow> error + pyval) \<Rightarrow> (url_kwargs \<Rightarrow> dict) \<Rightarrow> modules \<Rightarrow>
     request \<Rightarrow> view \<Rightarrow> url_kwargs \<Rightarrow> error + (dict \<times> view)" where
  "SchemaView_get_context_data build_apis build_models base sys_modules req self kw =
     (let resource_name = dict_get kw ''resource'' in
      case tastypie_api sys_modules self of
        Inl e \<Rightarrow> Inl e
      | Inr (api, self1) \<Rightarrow>
     (case registry_of api of
        Inl e \<Rightarrow> Inl e
      | Inr registry \<Rightarrow>
     (if \<not> (case resource_name of None \<Rightarrow> False | Some n \<Rightarrow> dict_contains registry n)
      then Inl Http404
      else
     (case tastypie_api sys_modules self1 of
        Inl e \<Rightarrow> Inl e
      | Inr (api2, self2) \<Rightarrow>
     (case registry_of api2 of
        Inl e \<Rightarrow> Inl e
      | Inr registry2 \<Rightarrow>
     (let resource = (case resource_name of
                        None \<Rightarrow> PNone
                      | Some n \<Rightarrow> (case dict_get registry2 n of None \<Rightarrow> PNone | Some r \<Rightarrow> r));
          context = SwaggerApiDataMixin_get_context_data base kw
      in
     (case build_apis resource of
        Inl e \<Rightarrow> Inl e
      | Inr apis \<Rightarrow>
     (case build_models resource of
        Inl e \<Rightarrow> Inl e
      | Inr models \<Rightarrow>
          Inr (dict_update context
                 [(''basePath'', PStr (py_strip CHR ''/'' (root_absolute_uri req))),
                  (''apis'', apis),
                  (''models'', models)],
               self2)))))))))"

text \<open>
  Django's \<^verbatim>\<open>TemplateView.get\<close> serves a GET: the context of \<^verbatim>\<open>get_context_data\<close>, called
  with the URL's keyword arguments, goes to \<^verbatim>\<open>render_to_response\<close> with no further
  arguments. Django answers \<^verbatim>\<open>Http404\<close> with status 404 and any other exception with 500.
\<close>

definition ResourcesView_get ::
  "(url_kwargs \<Rightarrow> dict) \<Rightarrow> modules \<Rightarrow> request \<Rightarrow> view \<Rightarrow> url_kwargs \<Rightarrow> error + response" where
  "ResourcesView_get base sys_modules req self kw =
     (case ResourcesView_get_context_data base sys_modules req self kw of
        Inl e \<Rightarrow> Inl e
      | Inr (context, self') \<Rightarrow> render_to_response context [])"

definition SchemaView_get ::
  "(pyval \<Rightarrow> error + pyval) \<Rightarrow> (pyval \<Rightarrow> error + pyval) \<Rightarrow> (url_kwargs \<Rightarrow> dict) \<Rightarrow> modules \<Rightarrow>
     request \<Rightarrow> view \<Rightarrow> url_kwargs \<Rightarrow> error + response" where
  "SchemaView_get build_apis build_models base sys_modules req self kw =
     (case SchemaView_get_context_data build_apis build_models base sys_modules req self kw of
        Inl e \<Rightarrow> Inl e
      | Inr (context, self') \<Rightarrow> render_to_response context [])"

fun http_status :: "error + response \<Rightarrow> nat" where
  "http_status (Inl Http404) = 404"
| "http_status (Inl e) = 500"
| "http_status (Inr r) = 200"

section \<open>A small installation\<close>

text \<open>
  One loaded module \<^verbatim>\<open>proj.urls\<close> with an \<^verbatim>\<open>Api\<close> of two resources and two other
  attributes, a view configured with the path of the \<^verbatim>\<open>Api\<close>, a request, and Django's
  \<^verbatim>\<open>get_context_data\<close>, which returns the keyword arguments and the view itself under
  \<^verbatim>\<open>view\<close>. The theorems below are evaluated on them.
\<close>

definition example_modules :: modules where
  "example_modules =
     [(''proj.urls'',
       [(''v1_api'', PApi [(''book'', PObject ''BookResource''),
                           (''author'', PObject ''AuthorResource'')]),
        (''DEBUG'', PInt 5),
        (''urlpatterns'', PList [])])]"

definition example_view :: view where
  "example_view =
     \<lparr>kwargs = [(''tastypie_api_module'', ''proj.urls.v1_api'')], inst_tastypie_api = None\<rparr>"

definition example_request :: request where
  "example_request =
     \<lparr>schema_absolute_uri = ''http://testserver/api/doc/schema/'',
      root_absolute_uri = ''http://testserver/''\<rparr>"

definition example_base :: "url_kwargs \<Rightarrow> dict" where
  "example_base kw = map (\<lambda>(k, v). (k, PStr v)) kw @ [(''view'', PObject ''view'')]"

definition example_heap :: heap where
  \<comment> \<open>two view instances of the same configuration\<close>
  "example_heap = (\<lambda>a. None)(0 := Some example_view, 1 := Some example_view)"

section \<open>Reading a JSON document\<close>

definition json_member :: "json \<Rightarrow> string \<Rightarrow> json option" where
  \<comment> \<open>the value of a key of a JSON object\<close>
  "json_member j k = (case j of JObject members \<Rightarrow> map_of members k | _ \<Rightarrow> None)"

definition json_keys :: "json \<Rightarrow> string list" where
  \<comment> \<open>the keys of a JSON object, in the order written\<close>
  "json_keys j = (case j of JObject members \<Rightarrow> map fst members | _ \<Rightarrow> [])"

section \<open>The specification's reading of lazy strings\<close>

text \<open>
  The specification asks that a lazy string anywhere in the context be written as its
  resolved text. \<open>spec_resolve_lazy\<close> is that reading, as a function of its own: the same
  value with every lazy string, at any depth of lists and dictionaries, replaced by the
  plain string of its text.
\<close>

fun spec_resolve_lazy :: "pyval \<Rightarrow> pyval"
  and spec_resolve_lazy_list :: "pyval list \<Rightarrow> pyval list"
  and spec_resolve_lazy_items :: "(string \<times> pyval) list \<Rightarrow> (string \<times> pyval) list"
where
  "spec_resolve_lazy (PPromise s) = PStr s"
| "spec_resolve_lazy (PList xs) = PList (spec_resolve_lazy_list xs)"
| "spec_resolve_lazy (PDict d) = PDict (spec_resolve_lazy_items d)"
| "spec_resolve_lazy PNone = PNone"
| "spec_resolve_lazy (PBool b) = PBool b"
| "spec_resolve_lazy (PInt i) = PInt i"
| "spec_resolve_lazy (PStr s) = PStr s"
| "spec_resolve_lazy (PApi r) = PApi r"
| "spec_resolve_lazy (PObject n) = PObject n"
| "spec_resolve_lazy_list [] = []"
| "spec_resolve_lazy_list (x # xs) = spec_resolve_lazy x # spec_resolve_lazy_list xs"
| "spec_resolve_lazy_items [] = []"
| "spec_resolve_lazy_items ((k, v) # d) = (k, spec_resolve_lazy v) # spec_resolve_lazy_items d"

section \<open>Facts about dictionaries and the encoder\<close>

lemma strip_internal_keys_eq:
  "strip_internal_keys c = AList.delete ''view'' (AList.delete ''params'' c)"
  by (simp add: strip_internal_keys_def dict_contains_def dict_del_def delete_id delete_idem
      Let_def delete_keys)

lemma keys_strip_internal_keys:
  "map fst (strip_internal_keys c) = removeAll ''view'' (removeAll ''params'' (map fst c))"
  by (simp add: strip_internal_keys_eq delete_keys)

lemma map_of_strip_internal_keys:
  "map_of (strip_internal_keys c) k =
     (if k = ''params'' \<or> k = ''view'' then None else map_of c k)"
  by (simp add: strip_internal_keys_eq delete_conv')

lemma map_of_dict_update2:
  "map_of (dict_update d [(k1, v1), (k2, v2)]) k =
     (if k = k2 then Some v2 else if k = k1 then Some v1 else map_of d k)"
  by (simp add: dict_update_def update_conv')

lemma map_of_dict_update3:
  "map_of (dict_update d [(k1, v1), (k2, v2), (k3, v3)]) k =
     (if k = k3 then Some v3 else if k = k2 then Some v2 else if k = k1 then Some v1
      else map_of d k)"
  by (simp add: dict_update_def update_conv')

lemma json_encode_items_keys:
  "json_encode_items d = Inr js \<Longrightarrow> map fst js = map fst d"
proof (induction d arbitrary: js)
  case Nil
  then show ?case by simp
next
  case (Cons kv d)
  obtain k v where kv: "kv = (k, v)" by (cases kv)
  from Cons.prems kv obtain j js' where
    "json_encode v = Inr j" "json_encode_items d = Inr js'" "js = (k, j) # js'"
    by (auto split: sum.splits)
  with Cons.IH kv show ?case by simp
qed

lemma json_encode_items_member:
  "json_encode_items d = Inr js \<Longrightarrow> map_of d k = Some v \<Longrightarrow>
     \<exists>j. json_encode v = Inr j \<and> map_of js k = Some j"
proof (induction d arbitrary: js)
  case Nil
  then show ?case by simp
next
  case (Cons kv d)
  obtain k' v' where kv: "kv = (k', v')" by (cases kv)
  from Cons.prems(1) kv obtain j js' where
    enc: "json_encode v' = Inr j" "json_encode_items d = Inr js'" "js = (k', j) # js'"
    by (auto split: sum.splits)
  show ?case
  proof (cases "k' = k")
    case True
    with Cons.prems(2) kv enc show ?thesis by simp
  next
    case False
    with Cons.prems(2) kv have "map_of d k = Some v" by simp
    from Cons.IH[OF enc(2) this] False enc(3) show ?thesis by simp
  qed
qed

lemma json_encode_error:
  "json_encode v = Inl e \<Longrightarrow> e = TypeError"
  "json_encode_list xs = Inl e \<Longrightarrow> e = TypeError"
  "json_encode_items d = Inl e \<Longrightarrow> e = TypeError"
  by (induction v and xs and d rule: json_encode_json_encode_list_json_encode_items.induct)
    (auto split: sum.splits)

lemma json_dumps_object:
  "json_dumps c = Inr body \<Longrightarrow> \<exists>js. json_encode_items c = Inr js \<and> body = JObject js"
  by (auto simp: json_dumps_def split: sum.splits)

lemma render_to_response_Inr:
  "render_to_response context kws = Inr r \<Longrightarrow>
     \<exists>js. json_encode_items (strip_internal_keys context) = Inr js \<and> content r = JObject js
        \<and> content_type r = ''application/json'' \<and> response_kwargs r = kws"
  by (auto simp: render_to_response_def Let_def dest!: json_dumps_object
      split: sum.splits if_splits)

lemma render_to_response_member:
  assumes "render_to_response context kws = Inr r"
    and "map_of context k = Some v" and "k \<noteq> ''params''" and "k \<noteq> ''view''"
  shows "\<exists>j. json_encode v = Inr j \<and> json_member (content r) k = Some j"
proof -
  from render_to_response_Inr[OF assms(1)] obtain js where
    js: "json_encode_items (strip_internal_keys context) = Inr js" "content r = JObject js"
    by blast
  from assms(2-4) have "map_of (strip_internal_keys context) k = Some v"
    by (simp add: map_of_strip_internal_keys)
  from json_encode_items_member[OF js(1) this] js(2) show ?thesis
    by (simp add: json_member_def)
qed

lemma json_encode_resolve:
  "json_encode (spec_resolve_lazy v) = json_encode v"
  "json_encode_list (spec_resolve_lazy_list xs) = json_encode_list xs"
  "json_encode_items (spec_resolve_lazy_items d) = json_encode_items d"
  by (induction v and xs and d
      rule: spec_resolve_lazy_spec_resolve_lazy_list_spec_resolve_lazy_items.induct)
    (simp_all add: force_text_def split: sum.splits)

lemma delete_spec_resolve_lazy_items:
  "AList.delete k (spec_resolve_lazy_items d) = spec_resolve_lazy_items (AList.delete k d)"
  by (induction d) auto

lemma strip_spec_resolve_lazy_items:
  "strip_internal_keys (spec_resolve_lazy_items c) =
     spec_resolve_lazy_items (strip_internal_keys c)"
  by (simp add: strip_internal_keys_eq delete_spec_resolve_lazy_items)

lemma json_encode_path_entries:
  "json_encode_list (map (\<lambda>name. PDict [(''path'', PStr (CHR ''/'' # name))]) names) =
     Inr (map (\<lambda>name. JObject [(''path'', JString (CHR ''/'' # name))]) names)"
  by (induction names) simp_all

section \<open>Facts about the string methods\<close>

lemma takeWhile_upto_sep:
  "c \<notin> set xs \<Longrightarrow> takeWhile (\<lambda>x. x \<noteq> c) (xs @ c # ys) = xs"
  by (induction xs) auto

lemma dropWhile_upto_sep:
  "c \<notin> set xs \<Longrightarrow> dropWhile (\<lambda>x. x \<noteq> c) (xs @ c # ys) = c # ys"
  by (induction xs) auto

lemma py_rsplit1_dotted:
  "c \<notin> set attr \<Longrightarrow> py_rsplit1 c (path @ c # attr) = [path, attr]"
  by (simp add: py_rsplit1_def takeWhile_upto_sep dropWhile_upto_sep)

lemma py_rsplit1_no_sep: "c \<notin> set s \<Longrightarrow> py_rsplit1 c s = [s]"
  by (simp add: py_rsplit1_def)

text \<open>
  On a string that does not begin with \<open>c\<close>, \<open>py_strip c\<close> removes the trailing run of \<open>c\<close>
  and nothing else.
\<close>

lemma py_strip_absolute:
  assumes "s = c0 # cs" and "c0 \<noteq> c"
  shows "\<exists>n. s = py_strip c s @ replicate n c" and "py_strip c s \<noteq> []"
    and "last (py_strip c s) \<noteq> c"
proof -
  let ?P = "\<lambda>x. x = c"
  let ?t = "rev s"
  from assms have lead: "dropWhile ?P s = s" by simp
  then have strip: "py_strip c s = rev (dropWhile ?P ?t)" by (simp add: py_strip_def)
  have "takeWhile ?P ?t = replicate (length (takeWhile ?P ?t)) c"
    by (rule replicate_length_same[symmetric]) (auto dest: set_takeWhileD)
  moreover have "s = rev (dropWhile ?P ?t) @ rev (takeWhile ?P ?t)"
    by (metis rev_append rev_rev_ident takeWhile_dropWhile_id)
  ultimately have "s = py_strip c s @ replicate (length (takeWhile ?P ?t)) c"
    using strip by (metis rev_replicate)
  then show "\<exists>n. s = py_strip c s @ replicate n c" ..
  from assms have "c0 \<in> set ?t" by simp
  with assms(2) have ne: "dropWhile ?P ?t \<noteq> []" by (auto simp: dropWhile_eq_Nil_conv)
  with strip show "py_strip c s \<noteq> []" by simp
  from ne have "\<not> ?P (hd (dropWhile ?P ?t))" by (rule hd_dropWhile)
  with ne strip show "last (py_strip c s) \<noteq> c" by (simp add: last_rev)
qed

lemma trailing_unique:
  assumes "bp @ replicate n c = u @ [c]" and "bp \<noteq> []" and "last bp \<noteq> c"
    and "u \<noteq> []" and "last u \<noteq> c"
  shows "bp = u"
proof (cases n)
  case 0
  with assms show ?thesis by (metis append_Nil2 last_snoc replicate_0)
next
  case (Suc k)
  then have "replicate n c = replicate k c @ [c]" by (simp add: replicate_append_same)
  with assms(1) have eq: "bp @ replicate k c = u" by (metis append_assoc append_same_eq)
  show ?thesis
  proof (cases k)
    case 0
    with eq show ?thesis by simp
  next
    case (Suc j)
    with eq have "last u = c"
      by (metis last_appendR last_replicate nat.distinct(1) replicate_empty)
    with assms(5) show ?thesis by simp
  qed
qed

section \<open>Facts about the accessor and the views\<close>

lemma tastypie_api_Inr:
  assumes "tastypie_api sys_modules self = Inr (api, self')"
  shows "truthy api" and "get_tastypie_api_attr self' = api" and "kwargs self' = kwargs self"
    and "self' = self \<or> self' = self\<lparr>inst_tastypie_api := Some api\<rparr>"
  using assms
  by (auto simp: tastypie_api_def get_tastypie_api_attr_def Let_def
      split: if_splits option.splits list.splits)

lemma tastypie_api_cached:
  assumes "tastypie_api sys_modules self = Inr (api, self')"
  shows "tastypie_api m self' = Inr (api, self')"
  using tastypie_api_Inr(1,2)[OF assms] by (simp add: tastypie_api_def)

text \<open>The accessor on a path with a dot, when nothing is cached.\<close>

lemma tastypie_api_dotted:
  assumes "\<not> truthy (get_tastypie_api_attr self)"
    and "dict_get (kwargs self) ''tastypie_api_module'' = Some (path @ ''.'' @ attr)"
    and "CHR ''.'' \<notin> set attr"
  shows "tastypie_api sys_modules self =
     (case map_of sys_modules path of
        None \<Rightarrow> Inl (ImproperlyConfigured (path @ '' is not a valid python path''))
      | Some md \<Rightarrow>
          if truthy (getattr md attr PNone)
          then Inr (getattr md attr PNone,
                    self\<lparr>inst_tastypie_api := Some (getattr md attr PNone)\<rparr>)
          else Inl (ImproperlyConfigured
                 (path @ ''.'' @ attr @ '' is not a valid tastypie.api.Api instance'')))"
  using assms by (simp add: tastypie_api_def py_rsplit1_dotted Let_def split: option.splits)

text \<open>
  The accessor on a non-empty path without a dot, when nothing is cached: the unpacking of
  the one-element list raises \<^verbatim>\<open>ValueError\<close>, whatever is loaded.
\<close>

lemma tastypie_api_no_dot:
  assumes "\<not> truthy (get_tastypie_api_attr self)"
    and "dict_get (kwargs self) ''tastypie_api_module'' = Some m"
    and "m \<noteq> []" and "CHR ''.'' \<notin> set m"
  shows "tastypie_api sys_modules self = Inl ValueError"
  using assms by (simp add: tastypie_api_def py_rsplit1_no_sep)

lemma tastypie_api_at_Inr:
  assumes "tastypie_api_at sys_modules h a = Some (Inr (api, h'))"
  obtains self self' where "h a = Some self"
    "tastypie_api sys_modules self = Inr (api, self')" "h' = h(a := Some self')"
  using assms
  by (auto simp: tastypie_api_at_def split: option.splits sum.splits prod.splits)

lemma map_of_SwaggerApiDataMixin:
  "map_of (SwaggerApiDataMixin_get_context_data base kw) ''apiVersion'' = Some (PStr ''0.1'')"
  "map_of (SwaggerApiDataMixin_get_context_data base kw) ''swaggerVersion'' = Some (PStr ''1.1'')"
  by (simp_all add: SwaggerApiDataMixin_get_context_data_def map_of_dict_update2)

lemma ResourcesView_get_Inr:
  assumes "ResourcesView_get base sys_modules req self kw = Inr r"
  obtains api self' registry where
    "tastypie_api sys_modules self = Inr (api, self')"
    "registry_of api = Inr registry"
    "render_to_response
       (dict_update (SwaggerApiDataMixin_get_context_data base kw)
          [(''basePath'', PStr (py_strip CHR ''/'' (schema_absolute_uri req))),
           (''apis'', PList (map (\<lambda>name. PDict [(''path'', PStr (''/'' @ name))])
                               (sort (dict_keys registry))))]) [] = Inr r"
  using assms
  by (auto simp: ResourcesView_get_def ResourcesView_get_context_data_def Let_def
      split: sum.splits prod.splits)

lemma SchemaView_get_Inr:
  assumes "SchemaView_get build_apis build_models base sys_modules req self kw = Inr r"
  obtains apis models where
    "render_to_response
       (dict_update (SwaggerApiDataMixin_get_context_data base kw)
          [(''basePath'', PStr (py_strip CHR ''/'' (root_absolute_uri req))),
           (''apis'', apis), (''models'', models)]) [] = Inr r"
  using assms
  by (auto simp: SchemaView_get_def SchemaView_get_context_data_def Let_def
      split: sum.splits prod.splits if_splits)

section \<open>The small installation, evaluated\<close>

lemmas example_defs =
  example_modules_def example_view_def example_request_def example_base_def

lemmas eval_defs =
  tastypie_api_def get_tastypie_api_attr_def class_tastypie_api_def dict_get_def
  py_rsplit1_def getattr_def registry_of_def dict_keys_def dict_contains_def dict_del_def
  dict_update_def py_strip_def SwaggerApiDataMixin_get_context_data_def
  ResourcesView_get_context_data_def ResourcesView_get_def SchemaView_get_context_data_def
  SchemaView_get_def render_to_response_def strip_internal_keys_def json_dumps_def
  json_member_def Let_def

lemma example_tastypie_api:
  "tastypie_api example_modules example_view =
     Inr (PApi [(''book'', PObject ''BookResource''), (''author'', PObject ''AuthorResource'')],
          example_view\<lparr>inst_tastypie_api :=
            Some (PApi [(''book'', PObject ''BookResource''),
                        (''author'', PObject ''AuthorResource'')])\<rparr>)"
  by (simp add: example_defs eval_defs)

lemma example_listing:
  "ResourcesView_get example_base example_modules example_request example_view [] =
     Inr \<lparr>content = JObject
            [(''apiVersion'', JString ''0.1''), (''swaggerVersion'', JString ''1.1''),
             (''basePath'', JString ''http://testserver/api/doc/schema''),
             (''apis'', JArray [JObject [(''path'', JString ''/author'')],
                               JObject [(''path'', JString ''/book'')]])],
          content_type = ''application/json'', response_kwargs = []\<rparr>"
  by (simp add: example_defs eval_defs)

lemma example_declaration:
  "SchemaView_get (\<lambda>r. Inr (PList [])) (\<lambda>r. Inr (PDict [])) example_base example_modules
       example_request example_view [(''resource'', ''book'')] =
     Inr \<lparr>content = JObject
            [(''resource'', JString ''book''),
             (''apiVersion'', JString ''0.1''), (''swaggerVersion'', JString ''1.1''),
             (''basePath'', JString ''http://testserver''),
             (''apis'', JArray []), (''models'', JObject [])],
          content_type = ''application/json'', response_kwargs = []\<rparr>"
  by (simp add: example_defs eval_defs)

section \<open>JSONView.render_to_response\<close>

text \<open>
  C3. Whatever the context holds, the keys \<^verbatim>\<open>params\<close> and \<^verbatim>\<open>view\<close> are not among the keys
  of the JSON object the responder writes, also when the context holds them. The object's
  keys are the context's keys without these two, in the context's order. (The keys are the
  object's own; a dictionary nested in a value is written as it is.)
\<close>

theorem render_to_response_strips_params_view:
  assumes "render_to_response context kws = Inr r"
  shows "(\<exists>members. content r = JObject members)
     \<and> ''params'' \<notin> set (json_keys (content r))
     \<and> ''view'' \<notin> set (json_keys (content r))
     \<and> json_keys (content r) = removeAll ''view'' (removeAll ''params'' (dict_keys context))"
proof -
  from render_to_response_Inr[OF assms] obtain js where
    js: "json_encode_items (strip_internal_keys context) = Inr js" "content r = JObject js"
    by blast
  from json_encode_items_keys[OF js(1)] have
    "map fst js = removeAll ''view'' (removeAll ''params'' (map fst context))"
    by (simp add: keys_strip_internal_keys)
  with js(2) show ?thesis by (simp add: json_keys_def dict_keys_def)
qed

theorem render_to_response_strips_params_view_witness:
  "render_to_response
       [(''params'', PDict [(''resource'', PStr ''book'')]),
        (''view'', PObject ''SchemaView''), (''apiVersion'', PStr ''0.1'')] []
     = Inr \<lparr>content = JObject [(''apiVersion'', JString ''0.1'')],
            content_type = ''application/json'', response_kwargs = []\<rparr>
   \<and> ''params'' \<notin> set (json_keys (JObject [(''apiVersion'', JString ''0.1'')]))
   \<and> ''view'' \<notin> set (json_keys (JObject [(''apiVersion'', JString ''0.1'')]))"
proof -
  have h: "render_to_response
       [(''params'', PDict [(''resource'', PStr ''book'')]),
        (''view'', PObject ''SchemaView''), (''apiVersion'', PStr ''0.1'')] []
     = Inr \<lparr>content = JObject [(''apiVersion'', JString ''0.1'')],
            content_type = ''application/json'', response_kwargs = []\<rparr>"
    by (simp add: render_to_response_def strip_internal_keys_def dict_contains_def
        dict_del_def json_dumps_def)
  from render_to_response_strips_params_view[OF h] h show ?thesis by simp
qed

text \<open>
  C8. Every response of the responder has the content type \<^verbatim>\<open>application/json\<close>, whatever
  the context holds; when it gives no response, the failure is a \<^verbatim>\<open>TypeError\<close> (a value
  that JSON cannot carry, or \<^verbatim>\<open>content_type\<close> given a second time by the caller).
\<close>

theorem render_to_response_content_type:
  "(render_to_response context kws = Inr r \<longrightarrow> content_type r = ''application/json'')
   \<and> (render_to_response context kws = Inl e \<longrightarrow> e = TypeError)"
  by (auto simp: render_to_response_def json_dumps_def Let_def json_encode_error
      split: sum.splits if_splits)

theorem render_to_response_content_type_witness:
  "render_to_response [(''view'', PObject ''ResourcesView''), (''apis'', PList [])] []
     = Inr \<lparr>content = JObject [(''apis'', JArray [])], content_type = ''application/json'',
            response_kwargs = []\<rparr>
   \<and> content_type \<lparr>content = JObject [(''apis'', JArray [])],
        content_type = ''application/json'', response_kwargs = []\<rparr> = ''application/json''
   \<and> render_to_response [(''when'', PObject ''datetime'')] [] = Inl TypeError"
  using render_to_response_content_type
    [of "[(''view'', PObject ''ResourcesView''), (''apis'', PList [])]" "[]"
      "\<lparr>content = JObject [(''apis'', JArray [])], content_type = ''application/json'',
            response_kwargs = []\<rparr>" TypeError]
  by (simp add: render_to_response_def strip_internal_keys_def dict_contains_def
        dict_del_def json_dumps_def)

section \<open>LazyEncoder.default\<close>

text \<open>
  C5. A lazy string is written as the JSON string of its resolved text, wherever it stands
  among the values of the context: the encoder gives a value with lazy strings the
  document of the same value with each lazy string replaced by its text, and so does the
  responder for a whole context. A JSON document has no place for an object, so nothing
  opaque is written.
\<close>

theorem lazy_strings_serialize_to_text:
  "json_encode (PPromise s) = Inr (JString s)
   \<and> json_encode v = json_encode (spec_resolve_lazy v)
   \<and> render_to_response context kws = render_to_response (spec_resolve_lazy_items context) kws"
  by (simp add: render_to_response_def json_dumps_def strip_spec_resolve_lazy_items
      json_encode_resolve force_text_def)

theorem lazy_strings_serialize_to_text_witness:
  "render_to_response
     [(''title'', PPromise ''Books''),
      (''apis'', PList [PDict [(''summary'', PPromise ''List of books'')]])] []
   = Inr \<lparr>content = JObject
             [(''title'', JString ''Books''),
              (''apis'', JArray [JObject [(''summary'', JString ''List of books'')]])],
          content_type = ''application/json'', response_kwargs = []\<rparr>"
  using lazy_strings_serialize_to_text
    [of "''Books''" PNone
      "[(''title'', PPromise ''Books''),
        (''apis'', PList [PDict [(''summary'', PPromise ''List of books'')]])]" "[]"]
  by (simp add: render_to_response_def strip_internal_keys_def dict_contains_def
        dict_del_def json_dumps_def)

section \<open>TastypieApiMixin.tastypie_api\<close>

text \<open>
  C4, as the specification states it, fails: the accessor fails with a configuration error,
  and with no other exception, whenever the configured path is missing, does not resolve
  to a loaded module or does not point to a valid registry instance, for every malformed
  path string. On the module \<^verbatim>\<open>proj.urls\<close> whose attribute \<^verbatim>\<open>DEBUG\<close> is the integer 5, the
  path \<^verbatim>\<open>proj.urls.DEBUG\<close> points to no registry (reading \<^verbatim>\<open>_registry\<close> from it raises
  \<^verbatim>\<open>AttributeError\<close>), and the accessor returns the 5 and caches it: the guard is the truth
  value alone. On the same modules the path \<^verbatim>\<open>v1_api\<close>, which has no dot, raises
  \<^verbatim>\<open>ValueError\<close>.
\<close>

theorem tastypie_api_not_always_configuration_error:
  "tastypie_api [(''proj.urls'', [(''DEBUG'', PInt 5)])]
       \<lparr>kwargs = [(''tastypie_api_module'', ''proj.urls.DEBUG'')], inst_tastypie_api = None\<rparr>
     = Inr (PInt 5, \<lparr>kwargs = [(''tastypie_api_module'', ''proj.urls.DEBUG'')],
                     inst_tastypie_api = Some (PInt 5)\<rparr>)
   \<and> registry_of (PInt 5) = Inl AttributeError
   \<and> tastypie_api [(''proj.urls'', [(''DEBUG'', PInt 5)])]
       \<lparr>kwargs = [(''tastypie_api_module'', ''v1_api'')], inst_tastypie_api = None\<rparr>
     = Inl ValueError"
  by (simp add: eval_defs)

text \<open>
  C4, amended. While nothing is cached, the accessor fails with a configuration error when
  the path is missing or empty, and, for a path with a dot, when the part before the last
  dot names no loaded module or the part after it names an attribute that is absent or
  false in Python's sense. (What a truthy attribute gives is C10; a path without a dot is
  not covered.)
\<close>

theorem tastypie_api_configuration_errors:
  assumes "\<not> truthy (get_tastypie_api_attr self)"
    and "dict_get (kwargs self) ''tastypie_api_module'' = None
       \<or> dict_get (kwargs self) ''tastypie_api_module'' = Some []
       \<or> (\<exists>path attr. dict_get (kwargs self) ''tastypie_api_module'' = Some (path @ ''.'' @ attr)
            \<and> CHR ''.'' \<notin> set attr
            \<and> (map_of sys_modules path = None
               \<or> (\<exists>md. map_of sys_modules path = Some md \<and> \<not> truthy (getattr md attr PNone))))"
  shows "\<exists>msg. tastypie_api sys_modules self = Inl (ImproperlyConfigured msg)"
  using assms(2)
proof (elim disjE exE conjE)
  assume "dict_get (kwargs self) ''tastypie_api_module'' = None"
  with assms(1) show ?thesis by (simp add: tastypie_api_def)
next
  assume "dict_get (kwargs self) ''tastypie_api_module'' = Some []"
  with assms(1) show ?thesis by (simp add: tastypie_api_def)
next
  fix path attr
  assume "dict_get (kwargs self) ''tastypie_api_module'' = Some (path @ ''.'' @ attr)"
    "CHR ''.'' \<notin> set attr" "map_of sys_modules path = None"
  with tastypie_api_dotted[OF assms(1) this(1,2), of sys_modules] show ?thesis by simp
next
  fix path attr md
  assume "dict_get (kwargs self) ''tastypie_api_module'' = Some (path @ ''.'' @ attr)"
    "CHR ''.'' \<notin> set attr" "map_of sys_modules path = Some md"
    "\<not> truthy (getattr md attr PNone)"
  with tastypie_api_dotted[OF assms(1) this(1,2), of sys_modules] show ?thesis by simp
qed

theorem tastypie_api_configuration_errors_witness:
  "tastypie_api example_modules \<lparr>kwargs = [], inst_tastypie_api = None\<rparr>
     = Inl (ImproperlyConfigured must_be_defined)
   \<and> tastypie_api example_modules
       \<lparr>kwargs = [(''tastypie_api_module'', ''proj.api.v1_api'')], inst_tastypie_api = None\<rparr>
     = Inl (ImproperlyConfigured ''proj.api is not a valid python path'')
   \<and> tastypie_api example_modules
       \<lparr>kwargs = [(''tastypie_api_module'', ''proj.urls.urlpatterns'')],
        inst_tastypie_api = None\<rparr>
     = Inl (ImproperlyConfigured
         ''proj.urls.urlpatterns is not a valid tastypie.api.Api instance'')"
proof -
  let ?v1 = "\<lparr>kwargs = [], inst_tastypie_api = None\<rparr>"
  let ?v2 = "\<lparr>kwargs = [(''tastypie_api_module'', ''proj.api.v1_api'')],
              inst_tastypie_api = None\<rparr>"
  let ?v3 = "\<lparr>kwargs = [(''tastypie_api_module'', ''proj.urls.urlpatterns'')],
              inst_tastypie_api = None\<rparr>"
  have c: "\<not> truthy (get_tastypie_api_attr \<lparr>kwargs = k, inst_tastypie_api = None\<rparr>)" for k
    by (simp add: get_tastypie_api_attr_def class_tastypie_api_def)
  have h1: "dict_get (kwargs ?v1) ''tastypie_api_module'' = None
       \<or> dict_get (kwargs ?v1) ''tastypie_api_module'' = Some []
       \<or> (\<exists>path attr. dict_get (kwargs ?v1) ''tastypie_api_module'' = Some (path @ ''.'' @ attr)
            \<and> CHR ''.'' \<notin> set attr
            \<and> (map_of example_modules path = None
               \<or> (\<exists>md. map_of example_modules path = Some md
                    \<and> \<not> truthy (getattr md attr PNone))))"
    by (simp add: dict_get_def)
  have "dict_get (kwargs ?v2) ''tastypie_api_module'' = Some (''proj.api'' @ ''.'' @ ''v1_api'')
      \<and> CHR ''.'' \<notin> set ''v1_api'' \<and> map_of example_modules ''proj.api'' = None"
    by (simp add: dict_get_def example_modules_def)
  then have h2: "dict_get (kwargs ?v2) ''tastypie_api_module'' = None
       \<or> dict_get (kwargs ?v2) ''tastypie_api_module'' = Some []
       \<or> (\<exists>path attr. dict_get (kwargs ?v2) ''tastypie_api_module'' = Some (path @ ''.'' @ attr)
            \<and> CHR ''.'' \<notin> set attr
            \<and> (map_of example_modules path = None
               \<or> (\<exists>md. map_of example_modules path = Some md
                    \<and> \<not> truthy (getattr md attr PNone))))"
    by blast
  have "dict_get (kwargs ?v3) ''tastypie_api_module''
        = Some (''proj.urls'' @ ''.'' @ ''urlpatterns'')
      \<and> CHR ''.'' \<notin> set ''urlpatterns''
      \<and> (\<exists>md. map_of example_modules ''proj.urls'' = Some md
            \<and> \<not> truthy (getattr md ''urlpatterns'' PNone))"
    by (simp add: dict_get_def example_modules_def getattr_def)
  then have h3: "dict_get (kwargs ?v3) ''tastypie_api_module'' = None
       \<or> dict_get (kwargs ?v3) ''tastypie_api_module'' = Some []
       \<or> (\<exists>path attr. dict_get (kwargs ?v3) ''tastypie_api_module'' = Some (path @ ''.'' @ attr)
            \<and> CHR ''.'' \<notin> set attr
            \<and> (map_of example_modules path = None
               \<or> (\<exists>md. map_of example_modules path = Some md
                    \<and> \<not> truthy (getattr md attr PNone))))"
    by blast
  from tastypie_api_configuration_errors[OF c h1]
    tastypie_api_configuration_errors[OF c h2]
    tastypie_api_configuration_errors[OF c h3]
  show ?thesis by (simp add: example_defs eval_defs)
qed

text \<open>
  C9. Once an access through a view instance has returned a registry, every later access
  through that instance returns the same registry and leaves the instances as they are,
  whatever is loaded then (nothing is resolved again); the first access writes that
  instance only, every other instance is as it was. The value returned is true in
  Python's sense, which is why the cache is read the next time.
\<close>

theorem tastypie_api_cached_per_object:
  assumes "tastypie_api_at sys_modules h a = Some (Inr (api, h'))"
  shows "(\<forall>m. tastypie_api_at m h' a = Some (Inr (api, h')))
     \<and> (\<forall>b. b \<noteq> a \<longrightarrow> h' b = h b)
     \<and> truthy api"
proof -
  from assms obtain self self' where s: "h a = Some self"
    "tastypie_api sys_modules self = Inr (api, self')" "h' = h(a := Some self')"
    by (rule tastypie_api_at_Inr)
  have "tastypie_api_at m h' a = Some (Inr (api, h'))" for m
    using s(3) tastypie_api_cached[OF s(2), of m] by (simp add: tastypie_api_at_def)
  moreover from s(3) have "\<forall>b. b \<noteq> a \<longrightarrow> h' b = h b" by simp
  moreover from s(2) have "truthy api" by (rule tastypie_api_Inr(1))
  ultimately show ?thesis by blast
qed

text \<open>
  On two instances of the same configuration: the access through instance 0 resolves the
  registry; a second access, with nothing loaded any more, returns it again; instance 1
  is unchanged and, with nothing loaded, cannot resolve.
\<close>

theorem tastypie_api_cached_per_object_witness:
  "tastypie_api_at example_modules example_heap 0 =
     Some (Inr (PApi [(''book'', PObject ''BookResource''),
                      (''author'', PObject ''AuthorResource'')],
                example_heap(0 := Some (example_view\<lparr>inst_tastypie_api :=
                  Some (PApi [(''book'', PObject ''BookResource''),
                              (''author'', PObject ''AuthorResource'')])\<rparr>))))
   \<and> tastypie_api_at []
       (example_heap(0 := Some (example_view\<lparr>inst_tastypie_api :=
          Some (PApi [(''book'', PObject ''BookResource''),
                      (''author'', PObject ''AuthorResource'')])\<rparr>))) 0 =
     Some (Inr (PApi [(''book'', PObject ''BookResource''),
                      (''author'', PObject ''AuthorResource'')],
                example_heap(0 := Some (example_view\<lparr>inst_tastypie_api :=
                  Some (PApi [(''book'', PObject ''BookResource''),
                              (''author'', PObject ''AuthorResource'')])\<rparr>))))
   \<and> (example_heap(0 := Some (example_view\<lparr>inst_tastypie_api :=
          Some (PApi [(''book'', PObject ''BookResource''),
                      (''author'', PObject ''AuthorResource'')])\<rparr>))) 1 = example_heap 1
   \<and> tastypie_api_at []
       (example_heap(0 := Some (example_view\<lparr>inst_tastypie_api :=
          Some (PApi [(''book'', PObject ''BookResource''),
                      (''author'', PObject ''AuthorResource'')])\<rparr>))) 1 =
     Some (Inl (ImproperlyConfigured ''proj.urls is not a valid python path''))"
proof -
  have h: "tastypie_api_at example_modules example_heap 0 =
     Some (Inr (PApi [(''book'', PObject ''BookResource''),
                      (''author'', PObject ''AuthorResource'')],
                example_heap(0 := Some (example_view\<lparr>inst_tastypie_api :=
                  Some (PApi [(''book'', PObject ''BookResource''),
                              (''author'', PObject ''AuthorResource'')])\<rparr>))))"
    by (simp add: tastypie_api_at_def example_heap_def example_tastypie_api)
  have o: "tastypie_api_at []
       (example_heap(0 := Some (example_view\<lparr>inst_tastypie_api :=
          Some (PApi [(''book'', PObject ''BookResource''),
                      (''author'', PObject ''AuthorResource'')])\<rparr>))) 1 =
     Some (Inl (ImproperlyConfigured ''proj.urls is not a valid python path''))"
    by (simp add: tastypie_api_at_def example_heap_def example_defs eval_defs)
  from tastypie_api_cached_per_object[OF h] h o show ?thesis by simp
qed

text \<open>
  C10. While nothing is cached, where the path has a dot and its module is loaded, the
  truth value of the attribute decides alone: a truthy value of any type is returned and cached as the registry, with no
  test of its type, and a false value raises the configuration error. An attribute that
  is absent reads as \<^verbatim>\<open>None\<close> and so raises it, as an attribute that is \<^verbatim>\<open>None\<close> does.
\<close>

theorem registry_validity_is_truthiness:
  assumes "\<not> truthy (get_tastypie_api_attr self)"
    and "dict_get (kwargs self) ''tastypie_api_module'' = Some (path @ ''.'' @ attr)"
    and "CHR ''.'' \<notin> set attr"
    and "map_of sys_modules path = Some md"
  shows "tastypie_api sys_modules self =
     (if truthy (getattr md attr PNone)
      then Inr (getattr md attr PNone,
                self\<lparr>inst_tastypie_api := Some (getattr md attr PNone)\<rparr>)
      else Inl (ImproperlyConfigured
             (path @ ''.'' @ attr @ '' is not a valid tastypie.api.Api instance'')))
     \<and> (map_of md attr = None \<or> map_of md attr = Some PNone \<longrightarrow>
          tastypie_api sys_modules self =
            Inl (ImproperlyConfigured
              (path @ ''.'' @ attr @ '' is not a valid tastypie.api.Api instance'')))"
  using tastypie_api_dotted[OF assms(1-3), of sys_modules] assms(4)
  by (auto simp: getattr_def)

text \<open>
  The integer 5 is accepted as the registry; the empty list and an absent attribute are
  refused.
\<close>

theorem registry_validity_is_truthiness_witness:
  "tastypie_api example_modules
       (example_view\<lparr>kwargs := [(''tastypie_api_module'', ''proj.urls.DEBUG'')]\<rparr>)
     = Inr (PInt 5, \<lparr>kwargs = [(''tastypie_api_module'', ''proj.urls.DEBUG'')],
                     inst_tastypie_api = Some (PInt 5)\<rparr>)
   \<and> tastypie_api example_modules
       (example_view\<lparr>kwargs := [(''tastypie_api_module'', ''proj.urls.urlpatterns'')]\<rparr>)
     = Inl (ImproperlyConfigured
         ''proj.urls.urlpatterns is not a valid tastypie.api.Api instance'')
   \<and> tastypie_api example_modules
       (example_view\<lparr>kwargs := [(''tastypie_api_module'', ''proj.urls.missing'')]\<rparr>)
     = Inl (ImproperlyConfigured
         ''proj.urls.missing is not a valid tastypie.api.Api instance'')"
proof -
  let ?md = "[(''v1_api'', PApi [(''book'', PObject ''BookResource''),
                           (''author'', PObject ''AuthorResource'')]),
        (''DEBUG'', PInt 5),
        (''urlpatterns'', PList [])]"
  have m: "map_of example_modules ''proj.urls'' = Some ?md" by (simp add: example_modules_def)
  have c: "\<not> truthy (get_tastypie_api_attr (example_view\<lparr>kwargs := k\<rparr>))" for k
    by (simp add: example_view_def get_tastypie_api_attr_def class_tastypie_api_def)
  have k: "dict_get (kwargs (example_view\<lparr>kwargs := [(''tastypie_api_module'', p @ ''.'' @ a)]\<rparr>))
      ''tastypie_api_module'' = Some (p @ ''.'' @ a)" for p a
    by (simp add: dict_get_def)
  have d1: "CHR ''.'' \<notin> set ''DEBUG''" by simp
  have d2: "CHR ''.'' \<notin> set ''urlpatterns''" by simp
  have d3: "CHR ''.'' \<notin> set ''missing''" by simp
  from registry_validity_is_truthiness[OF c k d1 m]
    registry_validity_is_truthiness[OF c k d2 m]
    registry_validity_is_truthiness[OF c k d3 m]
  show ?thesis by (simp add: getattr_def example_view_def)
qed

section \<open>SwaggerApiDataMixin.get_context_data\<close>

text \<open>
  C7. Every JSON response of the listing endpoint and of the declaration endpoint has the
  key \<^verbatim>\<open>apiVersion\<close> with the value \<^verbatim>\<open>"0.1"\<close> and the key \<^verbatim>\<open>swaggerVersion\<close> with the value
  \<^verbatim>\<open>"1.1"\<close>.
\<close>

theorem versions_in_every_response:
  "(ResourcesView_get base sys_modules req self kw = Inr r \<longrightarrow>
      json_member (content r) ''apiVersion'' = Some (JString ''0.1'')
      \<and> json_member (content r) ''swaggerVersion'' = Some (JString ''1.1''))
   \<and> (SchemaView_get build_apis build_models base sys_modules req self kw = Inr r' \<longrightarrow>
      json_member (content r') ''apiVersion'' = Some (JString ''0.1'')
      \<and> json_member (content r') ''swaggerVersion'' = Some (JString ''1.1''))"
proof (intro conjI impI)
  assume a: "ResourcesView_get base sys_modules req self kw = Inr r"
  from a obtain ctx where ctx: "render_to_response ctx [] = Inr r"
    "map_of ctx ''apiVersion'' = Some (PStr ''0.1'')"
    "map_of ctx ''swaggerVersion'' = Some (PStr ''1.1'')"
    by (rule ResourcesView_get_Inr) (simp add: map_of_dict_update2 map_of_SwaggerApiDataMixin)
  from render_to_response_member[OF ctx(1,2)]
  show "json_member (content r) ''apiVersion'' = Some (JString ''0.1'')" by simp
  from render_to_response_member[OF ctx(1,3)]
  show "json_member (content r) ''swaggerVersion'' = Some (JString ''1.1'')" by simp
next
  assume a: "SchemaView_get build_apis build_models base sys_modules req self kw = Inr r'"
  from a obtain ctx where ctx: "render_to_response ctx [] = Inr r'"
    "map_of ctx ''apiVersion'' = Some (PStr ''0.1'')"
    "map_of ctx ''swaggerVersion'' = Some (PStr ''1.1'')"
    by (rule SchemaView_get_Inr) (simp add: map_of_dict_update3 map_of_SwaggerApiDataMixin)
  from render_to_response_member[OF ctx(1,2)]
  show "json_member (content r') ''apiVersion'' = Some (JString ''0.1'')" by simp
  from render_to_response_member[OF ctx(1,3)]
  show "json_member (content r') ''swaggerVersion'' = Some (JString ''1.1'')" by simp
qed

theorem versions_in_every_response_witness:
  "ResourcesView_get example_base example_modules example_request example_view [] =
     Inr \<lparr>content = JObject
            [(''apiVersion'', JString ''0.1''), (''swaggerVersion'', JString ''1.1''),
             (''basePath'', JString ''http://testserver/api/doc/schema''),
             (''apis'', JArray [JObject [(''path'', JString ''/author'')],
                               JObject [(''path'', JString ''/book'')]])],
          content_type = ''application/json'', response_kwargs = []\<rparr>
   \<and> SchemaView_get (\<lambda>r. Inr (PList [])) (\<lambda>r. Inr (PDict [])) example_base example_modules
       example_request example_view [(''resource'', ''book'')] =
     Inr \<lparr>content = JObject
            [(''resource'', JString ''book''),
             (''apiVersion'', JString ''0.1''), (''swaggerVersion'', JString ''1.1''),
             (''basePath'', JString ''http://testserver''),
             (''apis'', JArray []), (''models'', JObject [])],
          content_type = ''application/json'', response_kwargs = []\<rparr>
   \<and> json_member (JObject
            [(''resource'', JString ''book''),
             (''apiVersion'', JString ''0.1''), (''swaggerVersion'', JString ''1.1''),
             (''basePath'', JString ''http://testserver''),
             (''apis'', JArray []), (''models'', JObject [])]) ''apiVersion''
       = Some (JString ''0.1'')"
  using versions_in_every_response
    [where base = example_base and sys_modules = example_modules and req = example_request
       and self = example_view and kw = "[]"]
    versions_in_every_response
    [where base = example_base and sys_modules = example_modules and req = example_request
       and self = example_view and kw = "[(''resource'', ''book'')]"
       and build_apis = "\<lambda>r. Inr (PList [])" and build_models = "\<lambda>r. Inr (PDict [])"]
    example_listing example_declaration
  by (simp add: json_member_def)

section \<open>ResourcesView.get_context_data\<close>

text \<open>
  C1. When the configured path resolves to a registry, whose keys are distinct as the keys
  of a dictionary are, the \<^verbatim>\<open>apis\<close> of the listing response are the entries
  \<^verbatim>\<open>{"path": "/<name>"}\<close> of a list of names that is sorted (lexicographically, by
  character code), has no name twice and holds exactly the registry's keys.
\<close>

theorem listing_apis_sorted_one_per_key:
  assumes "tastypie_api sys_modules self = Inr (PApi registry, self')"
    and "distinct (dict_keys registry)"
    and "ResourcesView_get base sys_modules req self kw = Inr r"
  shows "\<exists>names.
     json_member (content r) ''apis'' =
       Some (JArray (map (\<lambda>name. JObject [(''path'', JString (''/'' @ name))]) names))
     \<and> sorted names \<and> distinct names \<and> set names = set (dict_keys registry)"
proof -
  let ?names = "sort (dict_keys registry)"
  let ?apis = "PList (map (\<lambda>name. PDict [(''path'', PStr (''/'' @ name))]) ?names)"
  from assms(3) obtain api s1 reg where
    res: "tastypie_api sys_modules self = Inr (api, s1)" "registry_of api = Inr reg"
    and rend: "render_to_response
       (dict_update (SwaggerApiDataMixin_get_context_data base kw)
          [(''basePath'', PStr (py_strip CHR ''/'' (schema_absolute_uri req))),
           (''apis'', PList (map (\<lambda>name. PDict [(''path'', PStr (''/'' @ name))])
                               (sort (dict_keys reg))))]) [] = Inr r"
    by (rule ResourcesView_get_Inr)
  from res assms(1) have "reg = registry" by (auto simp: registry_of_def)
  with rend obtain ctx where ctx: "render_to_response ctx [] = Inr r"
    "map_of ctx ''apis'' = Some ?apis"
    by (simp add: map_of_dict_update2)
  from render_to_response_member[OF ctx] have
    "json_member (content r) ''apis'' =
       Some (JArray (map (\<lambda>name. JObject [(''path'', JString (''/'' @ name))]) ?names))"
    by (simp add: json_encode_path_entries)
  moreover have "sorted ?names" by simp
  moreover from assms(2) have "distinct ?names" by simp
  moreover have "set ?names = set (dict_keys registry)" by simp
  ultimately show ?thesis by blast
qed

theorem listing_apis_sorted_one_per_key_witness:
  "ResourcesView_get example_base example_modules example_request example_view [] =
     Inr \<lparr>content = JObject
            [(''apiVersion'', JString ''0.1''), (''swaggerVersion'', JString ''1.1''),
             (''basePath'', JString ''http://testserver/api/doc/schema''),
             (''apis'', JArray [JObject [(''path'', JString ''/author'')],
                               JObject [(''path'', JString ''/book'')]])],
          content_type = ''application/json'', response_kwargs = []\<rparr>
   \<and> (\<exists>names. [JObject [(''path'', JString ''/author'')], JObject [(''path'', JString ''/book'')]]
          = map (\<lambda>name. JObject [(''path'', JString (''/'' @ name))]) names
        \<and> sorted names \<and> distinct names \<and> set names = {''book'', ''author''})"
proof -
  have d: "distinct (dict_keys [(''book'', PObject ''BookResource''),
                                (''author'', PObject ''AuthorResource'')])"
    by (simp add: dict_keys_def)
  from listing_apis_sorted_one_per_key[OF example_tastypie_api d example_listing]
    example_listing
  show ?thesis by (simp add: json_member_def dict_keys_def)
qed

text \<open>
  C6. The \<^verbatim>\<open>basePath\<close> of the listing response is the absolute URL of the route \<^verbatim>\<open>schema\<close>
  without its trailing slash: an absolute URL begins with its scheme, so not with a slash,
  and then the URL is the \<^verbatim>\<open>basePath\<close> followed by slashes only, the \<^verbatim>\<open>basePath\<close> is not
  empty and does not end in a slash; where the URL ends in one slash, the \<^verbatim>\<open>basePath\<close> is
  the URL without it.
\<close>

theorem listing_basePath_strips_trailing_slash:
  assumes "ResourcesView_get base sys_modules req self kw = Inr r"
    and "schema_absolute_uri req = c # cs" and "c \<noteq> CHR ''/''"
  shows "\<exists>bp n. json_member (content r) ''basePath'' = Some (JString bp)
     \<and> schema_absolute_uri req = bp @ replicate n CHR ''/''
     \<and> bp \<noteq> [] \<and> last bp \<noteq> CHR ''/''
     \<and> (\<forall>u. schema_absolute_uri req = u @ ''/'' \<and> u \<noteq> [] \<and> last u \<noteq> CHR ''/'' \<longrightarrow> bp = u)"
proof -
  let ?url = "schema_absolute_uri req"
  let ?bp = "py_strip CHR ''/'' ?url"
  from assms(1) obtain ctx where ctx: "render_to_response ctx [] = Inr r"
    "map_of ctx ''basePath'' = Some (PStr ?bp)"
    by (rule ResourcesView_get_Inr) (simp add: map_of_dict_update2)
  from render_to_response_member[OF ctx] have
    m: "json_member (content r) ''basePath'' = Some (JString ?bp)" by simp
  from py_strip_absolute[OF assms(2,3)] obtain n where
    d: "?url = ?bp @ replicate n CHR ''/''" "?bp \<noteq> []" "last ?bp \<noteq> CHR ''/''"
    by blast
  have "\<forall>u. ?url = u @ ''/'' \<and> u \<noteq> [] \<and> last u \<noteq> CHR ''/'' \<longrightarrow> ?bp = u"
  proof (intro allI impI)
    fix u assume u: "?url = u @ ''/'' \<and> u \<noteq> [] \<and> last u \<noteq> CHR ''/''"
    with d(1) have "?bp @ replicate n CHR ''/'' = u @ [CHR ''/'']" by simp
    from trailing_unique[OF this d(2,3)] u show "?bp = u" by simp
  qed
  with m d show ?thesis by blast
qed

theorem listing_basePath_strips_trailing_slash_witness:
  "ResourcesView_get example_base example_modules example_request example_view [] =
     Inr \<lparr>content = JObject
            [(''apiVersion'', JString ''0.1''), (''swaggerVersion'', JString ''1.1''),
             (''basePath'', JString ''http://testserver/api/doc/schema''),
             (''apis'', JArray [JObject [(''path'', JString ''/author'')],
                               JObject [(''path'', JString ''/book'')]])],
          content_type = ''application/json'', response_kwargs = []\<rparr>
   \<and> schema_absolute_uri example_request = ''http://testserver/api/doc/schema'' @ ''/''
   \<and> (\<exists>bp n. ''http://testserver/api/doc/schema'' = bp
        \<and> schema_absolute_uri example_request = bp @ replicate n CHR ''/''
        \<and> bp \<noteq> [] \<and> last bp \<noteq> CHR ''/'')"
proof -
  have u: "schema_absolute_uri example_request
      = CHR ''h'' # ''ttp://testserver/api/doc/schema/''"
    by (simp add: example_request_def)
  have c: "CHR ''h'' \<noteq> CHR ''/''" by simp
  from listing_basePath_strips_trailing_slash[OF example_listing u c] example_listing
  show ?thesis by (auto simp: json_member_def example_request_def)
qed

section \<open>SchemaView.get_context_data\<close>

text \<open>
  C2. When the configured path resolves to a registry and the resource name of the URL is
  not a key of it (or the URL gives none), a GET on the declaration endpoint raises
  \<^verbatim>\<open>Http404\<close>, which Django answers with status 404, not 500.
\<close>

theorem schema_absent_resource_404:
  assumes "tastypie_api sys_modules self = Inr (PApi registry, self')"
    and "\<forall>n. dict_get kw ''resource'' = Some n \<longrightarrow> \<not> dict_contains registry n"
  shows "SchemaView_get build_apis build_models base sys_modules req self kw = Inl Http404
     \<and> http_status (SchemaView_get build_apis build_models base sys_modules req self kw) = 404"
  using assms
  by (auto simp: SchemaView_get_def SchemaView_get_context_data_def registry_of_def Let_def
      split: option.splits)

theorem schema_absent_resource_404_witness:
  "SchemaView_get (\<lambda>r. Inr (PList [])) (\<lambda>r. Inr (PDict [])) example_base example_modules
       example_request example_view [(''resource'', ''publisher'')] = Inl Http404
   \<and> http_status (SchemaView_get (\<lambda>r. Inr (PList [])) (\<lambda>r. Inr (PDict [])) example_base
       example_modules example_request example_view [(''resource'', ''publisher'')]) = 404
   \<and> SchemaView_get (\<lambda>r. Inr (PList [])) (\<lambda>r. Inr (PDict [])) example_base example_modules
       example_request example_view [] = Inl Http404"
proof -
  have a: "\<forall>n. dict_get [(''resource'', ''publisher'')] ''resource'' = Some n \<longrightarrow>
      \<not> dict_contains [(''book'', PObject ''BookResource''),
                        (''author'', PObject ''AuthorResource'')] n"
    by (simp add: dict_get_def dict_contains_def)
  have b: "\<forall>n. dict_get ([] :: url_kwargs) ''resource'' = Some n \<longrightarrow>
      \<not> dict_contains [(''book'', PObject ''BookResource''),
                        (''author'', PObject ''AuthorResource'')] n"
    by (simp add: dict_get_def)
  from schema_absent_resource_404[OF example_tastypie_api a]
    schema_absent_resource_404[OF example_tastypie_api b]
  show ?thesis by simp
qed

end
